theory Spec2Isabelle
  imports Complex_Main "HOL-Library.AList" "HOL-Library.Sublist"
begin

section \<open>Numbers\<close>

text \<open>
  The program computes with JavaScript numbers. A finite number is modelled by the
  rational it denotes and arithmetic on finite numbers is exact (rounding to the nearest
  double is not modelled, and the program never distinguishes the two zeros except through
  a division, which takes zero as positive here). The three special values are kept,
  because the program divides by prices and by balances without a guard: a zero divisor
  gives an infinity or NaN, and every comparison with NaN is false.
\<close>

datatype jsnum = Num rat | PInf | NInf | NaN

fun js_neg :: "jsnum \<Rightarrow> jsnum" where
  "js_neg (Num a) = Num (- a)"
| "js_neg PInf = NInf"
| "js_neg NInf = PInf"
| "js_neg NaN = NaN"

fun js_add :: "jsnum \<Rightarrow> jsnum \<Rightarrow> jsnum" where
  "js_add (Num a) (Num b) = Num (a + b)"
| "js_add NaN y = NaN"
| "js_add x NaN = NaN"
| "js_add PInf NInf = NaN"
| "js_add NInf PInf = NaN"
| "js_add PInf y = PInf"
| "js_add NInf y = NInf"
| "js_add (Num a) PInf = PInf"
| "js_add (Num a) NInf = NInf"

definition js_sub :: "jsnum \<Rightarrow> jsnum \<Rightarrow> jsnum" where
  "js_sub x y = js_add x (js_neg y)"

fun js_mul :: "jsnum \<Rightarrow> jsnum \<Rightarrow> jsnum" where
  "js_mul (Num a) (Num b) = Num (a * b)"
| "js_mul NaN y = NaN"
| "js_mul x NaN = NaN"
| "js_mul PInf PInf = PInf"
| "js_mul PInf NInf = NInf"
| "js_mul NInf PInf = NInf"
| "js_mul NInf NInf = PInf"
| "js_mul PInf (Num b) = (if b = 0 then NaN else if 0 < b then PInf else NInf)"
| "js_mul NInf (Num b) = (if b = 0 then NaN else if 0 < b then NInf else PInf)"
| "js_mul (Num a) PInf = (if a = 0 then NaN else if 0 < a then PInf else NInf)"
| "js_mul (Num a) NInf = (if a = 0 then NaN else if 0 < a then NInf else PInf)"

fun js_div :: "jsnum \<Rightarrow> jsnum \<Rightarrow> jsnum" where
  "js_div (Num a) (Num b) =
     (if b \<noteq> 0 then Num (a / b)
      else if 0 < a then PInf else if a < 0 then NInf else NaN)"
| "js_div NaN y = NaN"
| "js_div x NaN = NaN"
| "js_div (Num a) PInf = Num 0"
| "js_div (Num a) NInf = Num 0"
| "js_div PInf (Num b) = (if 0 \<le> b then PInf else NInf)"
| "js_div NInf (Num b) = (if 0 \<le> b then NInf else PInf)"
| "js_div PInf y = NaN"
| "js_div NInf y = NaN"

fun js_lt :: "jsnum \<Rightarrow> jsnum \<Rightarrow> bool" where
  "js_lt (Num a) (Num b) = (a < b)"
| "js_lt NaN y = False"
| "js_lt x NaN = False"
| "js_lt x NInf = False"
| "js_lt PInf y = False"
| "js_lt NInf y = True"
| "js_lt (Num a) PInf = True"

definition js_gt :: "jsnum \<Rightarrow> jsnum \<Rightarrow> bool" where
  "js_gt x y = js_lt y x"

definition js_le :: "jsnum \<Rightarrow> jsnum \<Rightarrow> bool" where
  "js_le x y = (js_lt x y \<or> (x = y \<and> x \<noteq> NaN))"

definition js_ge :: "jsnum \<Rightarrow> jsnum \<Rightarrow> bool" where
  "js_ge x y = js_le y x"

text \<open>\<open>x || d\<close> on an optional number: \<open>undefined\<close>, \<open>0\<close> and \<open>NaN\<close> are falsy.\<close>

fun js_or :: "jsnum option \<Rightarrow> jsnum \<Rightarrow> jsnum" where
  "js_or None d = d"
| "js_or (Some x) d = (if x = Num 0 \<or> x = NaN then d else x)"

text \<open>
  \<open>x.toFixed(4)\<close>: the decimal with four fraction digits nearest to \<open>x\<close>, the larger one
  on a tie, the sign treated apart. The model keeps the number the string denotes.
\<close>

definition round4 :: "rat \<Rightarrow> rat" where
  "round4 a = of_int \<lfloor>a * 10000 + 1 / 2\<rfloor> / 10000"

fun toFixed4 :: "jsnum \<Rightarrow> jsnum" where
  "toFixed4 (Num a) = Num (if a < 0 then - round4 (- a) else round4 a)"
| "toFixed4 x = x"

section \<open>config.js: symbols\<close>

definition QUOTE_CURRENCY :: string where
  "QUOTE_CURRENCY = ''USDT''"

text \<open>
  \<open>s.replace(pat, rep)\<close> with a string pattern replaces the first occurrence of \<open>pat\<close>
  in \<open>s\<close>, and leaves \<open>s\<close> as it is when there is none.
\<close>

fun replace_first :: "string \<Rightarrow> string \<Rightarrow> string \<Rightarrow> string" where
  "replace_first pat rep [] = (if pat = [] then rep else [])"
| "replace_first pat rep (c # cs) =
     (if prefix pat (c # cs) then rep @ drop (length pat) (c # cs)
      else c # replace_first pat rep cs)"

definition getFullSymbol :: "string \<Rightarrow> string" where
  "getFullSymbol token = token @ QUOTE_CURRENCY"

definition getBaseToken :: "string \<Rightarrow> string" where
  "getBaseToken s = replace_first QUOTE_CURRENCY [] s"

section \<open>The ledger and signal engine: class TradingBot\<close>

text \<open>
  A JavaScript \<open>Map\<close> keeps its keys in insertion order: it is an association list,
  \<open>set\<close> is \<^const>\<open>AList.update\<close> (in place for a key that is present, at the end
  otherwise), \<open>get\<close> is \<^const>\<open>map_of\<close>, \<open>delete\<close> is \<^const>\<open>AList.delete\<close> and \<open>size\<close> is
  the length. Objects that the source mutates in place (a monitored entry, a position)
  are written back under their key.

  The fields \<open>id\<close>, \<open>time\<close> and \<open>buyTime\<close> are read from the wall clock and are left out.
  A reason is a template string in the source; the model keeps the numbers it is
  rendered from.
\<close>

record token =
  symbol :: string
  currentPrice :: jsnum

datatype reason =
    PriceIncreased jsnum
  | PriceDropped jsnum jsnum
  | EmergencyClose
  | Reason string

record config =
  initialBalance_cfg :: jsnum
  buyThreshold :: jsnum
  sellThreshold :: jsnum
  tradeAmountPercent :: jsnum
  minTradeAmount :: jsnum
  maxPositions :: jsnum

record config_arg =
  arg_initialBalance :: "jsnum option"
  arg_buyThreshold :: "jsnum option"
  arg_sellThreshold :: "jsnum option"
  arg_tradeAmountPercent :: "jsnum option"
  arg_minTradeAmount :: "jsnum option"
  arg_maxPositions :: "jsnum option"

record position =
  pos_symbol :: string
  amount :: jsnum
  buyPrice :: jsnum
  peakPrice :: jsnum

record monitored =
  mon_symbol :: string
  monitorStartPrice :: jsnum
  mon_highestPrice :: jsnum
  mon_lowestPrice :: jsnum

record trade =
  trade_type :: string
  trade_symbol :: string
  trade_price :: jsnum
  trade_amount :: jsnum
  trade_total :: jsnum
  trade_reason :: reason
  trade_buyPrice :: "jsnum option"
  trade_peakPrice :: "jsnum option"
  trade_profit :: "jsnum option"
  trade_profitPercent :: "jsnum option"

record stats =
  totalTrades :: nat
  winningTrades :: nat
  losingTrades :: nat

record TradingBot =
  config :: config
  balance :: jsnum
  initialBalance :: jsnum
  positions :: "(string \<times> position) list"
  monitoredTokens :: "(string \<times> monitored) list"
  tradeHistory :: "trade list"
  stats :: stats

record signal =
  signal_type :: string
  signal_token :: token
  signal_reason :: reason

datatype ledger_error = MaxPositionsReached | InsufficientBalance | NoPositionFound

fun ledger_message :: "ledger_error \<Rightarrow> string" where
  "ledger_message MaxPositionsReached = ''Maximum positions reached''"
| "ledger_message InsufficientBalance = ''Insufficient balance''"
| "ledger_message NoPositionFound = ''No position found''"

definition empty_arg :: config_arg where
  "empty_arg = \<lparr>arg_initialBalance = None, arg_buyThreshold = None, arg_sellThreshold = None,
     arg_tradeAmountPercent = None, arg_minTradeAmount = None, arg_maxPositions = None\<rparr>"

definition new_TradingBot :: "config_arg \<Rightarrow> TradingBot" where
  "new_TradingBot a =
     (let c = \<lparr>initialBalance_cfg = js_or (arg_initialBalance a) (Num 10000),
                buyThreshold = js_or (arg_buyThreshold a) (Num 2),
                sellThreshold = js_or (arg_sellThreshold a) (Num 3),
                tradeAmountPercent = js_or (arg_tradeAmountPercent a) (Num 25),
                minTradeAmount = js_or (arg_minTradeAmount a) (Num 1),
                maxPositions = js_or (arg_maxPositions a) (Num 4)\<rparr>
      in \<lparr>config = c, balance = initialBalance_cfg c, initialBalance = initialBalance_cfg c,
          positions = [], monitoredTokens = [], tradeHistory = [],
          stats = \<lparr>totalTrades = 0, winningTrades = 0, losingTrades = 0\<rparr>\<rparr>)"

definition map_has :: "('k \<times> 'v) list \<Rightarrow> 'k \<Rightarrow> bool" where
  "map_has m k = (map_of m k \<noteq> None)"

definition map_size :: "('k \<times> 'v) list \<Rightarrow> jsnum" where
  "map_size m = Num (of_nat (length m))"

definition monitorToken :: "token \<Rightarrow> TradingBot \<Rightarrow> TradingBot" where
  "monitorToken t b =
     (if \<not> map_has (monitoredTokens b) (symbol t)
      then b\<lparr>monitoredTokens :=
             AList.update (symbol t)
               \<lparr>mon_symbol = symbol t, monitorStartPrice = currentPrice t,
                mon_highestPrice = currentPrice t, mon_lowestPrice = currentPrice t\<rparr>
               (monitoredTokens b)\<rparr>
      else b)"

text \<open>The extrema of the monitored entry after the current price has been seen.\<close>

definition observe :: "jsnum \<Rightarrow> monitored \<Rightarrow> monitored" where
  "observe p m =
     (let m1 = (if js_gt p (mon_highestPrice m) then m\<lparr>mon_highestPrice := p\<rparr> else m)
      in if js_lt p (mon_lowestPrice m1) then m1\<lparr>mon_lowestPrice := p\<rparr> else m1)"

definition raisePeak :: "jsnum \<Rightarrow> position \<Rightarrow> position" where
  "raisePeak p pos = (if js_gt p (peakPrice pos) then pos\<lparr>peakPrice := p\<rparr> else pos)"

definition dropFromPeak :: "position \<Rightarrow> jsnum \<Rightarrow> jsnum" where
  "dropFromPeak pos p = js_mul (js_div (js_sub (peakPrice pos) p) (peakPrice pos)) (Num 100)"

definition increaseFromLowest :: "monitored \<Rightarrow> jsnum \<Rightarrow> jsnum" where
  "increaseFromLowest m p =
     js_mul (js_div (js_sub p (mon_lowestPrice m)) (mon_lowestPrice m)) (Num 100)"

text \<open>
  The body of the \<open>forEach\<close> of \<open>updateMonitoring\<close>: one token of the tick, on the
  ledger and the signals collected so far.
\<close>

definition updateToken :: "token \<Rightarrow> TradingBot \<times> signal list \<Rightarrow> TradingBot \<times> signal list" where
  "updateToken t acc =
     (let b1 = monitorToken t (fst acc); signals = snd acc
      in case map_of (monitoredTokens b1) (symbol t) of
           None \<Rightarrow> (b1, signals)
         | Some m0 \<Rightarrow>
             let m = observe (currentPrice t) m0;
                 b2 = b1\<lparr>monitoredTokens := AList.update (symbol t) m (monitoredTokens b1)\<rparr>
             in (case map_of (positions b2) (symbol t) of
                   Some pos0 \<Rightarrow>
                     let pos = raisePeak (currentPrice t) pos0;
                         b3 = b2\<lparr>positions := AList.update (symbol t) pos (positions b2)\<rparr>;
                         d = dropFromPeak pos (currentPrice t)
                     in if js_ge d (sellThreshold (config b3))
                        then (b3, signals @ [\<lparr>signal_type = ''sell'', signal_token = t,
                                 signal_reason = PriceDropped d (peakPrice pos)\<rparr>])
                        else (b3, signals)
                 | None \<Rightarrow>
                     let i = increaseFromLowest m (currentPrice t)
                     in if js_ge i (buyThreshold (config b2)) \<and>
                           js_lt (map_size (positions b2)) (maxPositions (config b2))
                        then (b2, signals @ [\<lparr>signal_type = ''buy'', signal_token = t,
                                 signal_reason = PriceIncreased i\<rparr>])
                        else (b2, signals)))"

definition updateMonitoring :: "token list \<Rightarrow> TradingBot \<Rightarrow> TradingBot \<times> signal list" where
  "updateMonitoring tokens b = fold updateToken tokens (b, [])"

text \<open>The reset of the monitored extrema that ends \<open>buy\<close> and \<open>sell\<close>.\<close>

definition resetMonitored :: "token \<Rightarrow> (string \<times> monitored) list \<Rightarrow> (string \<times> monitored) list" where
  "resetMonitored t ms =
     (case map_of ms (symbol t) of
        Some m \<Rightarrow> AList.update (symbol t)
                    (m\<lparr>mon_lowestPrice := currentPrice t, mon_highestPrice := currentPrice t\<rparr>) ms
      | None \<Rightarrow> ms)"

definition tradeAmountOf :: "TradingBot \<Rightarrow> jsnum" where
  "tradeAmountOf b = js_mul (balance b) (js_div (tradeAmountPercent (config b)) (Num 100))"

definition buy :: "token \<Rightarrow> reason \<Rightarrow> TradingBot \<Rightarrow> (ledger_error + trade) \<times> TradingBot" where
  "buy t r b =
     (if js_ge (map_size (positions b)) (maxPositions (config b))
      then (Inl MaxPositionsReached, b)
      else
        let tradeAmount = tradeAmountOf b
        in if js_lt (balance b) tradeAmount \<or> js_lt tradeAmount (minTradeAmount (config b))
           then (Inl InsufficientBalance, b)
           else
             let amt = js_div tradeAmount (currentPrice t);
                 tr = \<lparr>trade_type = ''buy'', trade_symbol = symbol t,
                       trade_price = currentPrice t, trade_amount = amt,
                       trade_total = tradeAmount, trade_reason = r,
                       trade_buyPrice = None, trade_peakPrice = None,
                       trade_profit = None, trade_profitPercent = None\<rparr>
             in (Inr tr,
                 b\<lparr>positions := AList.update (symbol t)
                       \<lparr>pos_symbol = symbol t, amount = amt, buyPrice = currentPrice t,
                        peakPrice = currentPrice t\<rparr> (positions b),
                   balance := js_sub (balance b) tradeAmount,
                   tradeHistory := tr # tradeHistory b,
                   stats := (stats b)\<lparr>totalTrades := totalTrades (stats b) + 1\<rparr>,
                   monitoredTokens := resetMonitored t (monitoredTokens b)\<rparr>))"

definition sell :: "token \<Rightarrow> reason \<Rightarrow> TradingBot \<Rightarrow> (ledger_error + trade) \<times> TradingBot" where
  "sell t r b =
     (case map_of (positions b) (symbol t) of
        None \<Rightarrow> (Inl NoPositionFound, b)
      | Some pos \<Rightarrow>
          let sellValue = js_mul (amount pos) (currentPrice t);
              profit = js_sub sellValue (js_mul (amount pos) (buyPrice pos));
              profitPercent =
                js_mul (js_div profit (js_mul (amount pos) (buyPrice pos))) (Num 100);
              tr = \<lparr>trade_type = ''sell'', trade_symbol = symbol t,
                    trade_price = currentPrice t, trade_amount = amount pos,
                    trade_total = sellValue, trade_reason = r,
                    trade_buyPrice = Some (buyPrice pos), trade_peakPrice = Some (peakPrice pos),
                    trade_profit = Some profit, trade_profitPercent = Some profitPercent\<rparr>;
              st = (stats b)\<lparr>totalTrades := totalTrades (stats b) + 1\<rparr>
          in (Inr tr,
              b\<lparr>balance := js_add (balance b) sellValue,
                positions := AList.delete (symbol t) (positions b),
                tradeHistory := tr # tradeHistory b,
                stats := (if js_gt profit (Num 0)
                          then st\<lparr>winningTrades := winningTrades st + 1\<rparr>
                          else st\<lparr>losingTrades := losingTrades st + 1\<rparr>),
                monitoredTokens := resetMonitored t (monitoredTokens b)\<rparr>))"

section \<open>The execution guard: class OrderExecutor\<close>

text \<open>
  \<open>executeBuy\<close> and \<open>executeSell\<close> are \<open>async\<close> functions with one \<open>await\<close>, on the
  exchange's \<open>placeOrder\<close>. JavaScript runs a call without interruption up to its
  \<open>await\<close> and again from the answer to its \<open>return\<close>; other calls run in between. So
  each function is two steps on the executor's state: \<open>_start\<close>, which either returns
  or issues the order and suspends, and \<open>_resume\<close>, which takes what the \<open>await\<close> gave
  (an answer of the exchange, or an exception) together with the token object as it is
  by then (the price feed mutates its \<open>currentPrice\<close>), and returns.

  The exchange is a collaborator: \<open>placedOrders\<close> is the trace of the calls made to its
  \<open>placeOrder\<close>, in order. Each \<open>return\<close> of the source is one constructor of
  \<open>failure\<close>; \<open>failure_message\<close> gives the \<open>message\<close> field of the object returned.
\<close>

datatype orderResult = OrderPlaced string | OrderFailed string

datatype awaited = Resolved orderResult | Thrown string

datatype failure =
    AlreadyExecuting
  | BelowMinimum
  | NoPosition
  | LedgerRejected ledger_error
  | ExchangeRejected string
  | TransportFault string
  | InvalidSignal

fun failure_message :: "failure \<Rightarrow> string" where
  "failure_message AlreadyExecuting = ''Order already executing''"
| "failure_message BelowMinimum = ''Trade amount below minimum''"
| "failure_message NoPosition = ''No position found''"
| "failure_message (LedgerRejected e) = ledger_message e"
| "failure_message (ExchangeRejected e) = ''Bybit order failed: '' @ e"
| "failure_message (TransportFault e) = e"
| "failure_message InvalidSignal = ''Invalid signal type''"

datatype outcome = Executed trade string | Failed failure

datatype progress = Returned outcome | Suspended

record OrderExecutor =
  tradingBot :: TradingBot
  executingOrders :: "string set"
  placedOrders :: "(string \<times> string \<times> jsnum) list"

definition executeBuy_start :: "token \<Rightarrow> reason \<Rightarrow> OrderExecutor \<Rightarrow> progress \<times> OrderExecutor" where
  "executeBuy_start t r ex =
     (let fsym = getFullSymbol (symbol t)
      in if fsym \<in> executingOrders ex then (Returned (Failed AlreadyExecuting), ex)
         else
           let ex1 = ex\<lparr>executingOrders := insert fsym (executingOrders ex)\<rparr>;
               tradeAmount = tradeAmountOf (tradingBot ex1)
           in if js_lt tradeAmount (minTradeAmount (config (tradingBot ex1)))
              then (Returned (Failed BelowMinimum),
                    ex1\<lparr>executingOrders := executingOrders ex1 - {fsym}\<rparr>)
              else
                let quantity = toFixed4 (js_div tradeAmount (currentPrice t))
                in (Suspended,
                    ex1\<lparr>placedOrders := placedOrders ex1 @ [(fsym, ''Buy'', quantity)]\<rparr>))"

definition executeBuy_resume ::
    "token \<Rightarrow> reason \<Rightarrow> awaited \<Rightarrow> OrderExecutor \<Rightarrow> outcome \<times> OrderExecutor" where
  "executeBuy_resume t r a ex =
     (let fsym = getFullSymbol (symbol t)
      in case a of
           Resolved (OrderPlaced orderId) \<Rightarrow>
             (case buy t r (tradingBot ex) of
                (Inr tr, b) \<Rightarrow>
                  (Executed tr orderId,
                   ex\<lparr>tradingBot := b, executingOrders := executingOrders ex - {fsym}\<rparr>)
              | (Inl e, b) \<Rightarrow>
                  (Failed (LedgerRejected e),
                   ex\<lparr>tradingBot := b, executingOrders := executingOrders ex - {fsym}\<rparr>))
         | Resolved (OrderFailed err) \<Rightarrow>
             (Failed (ExchangeRejected err), ex\<lparr>executingOrders := executingOrders ex - {fsym}\<rparr>)
         | Thrown msg \<Rightarrow>
             (Failed (TransportFault msg), ex\<lparr>executingOrders := executingOrders ex - {fsym}\<rparr>))"

definition executeSell_start :: "token \<Rightarrow> reason \<Rightarrow> OrderExecutor \<Rightarrow> progress \<times> OrderExecutor" where
  "executeSell_start t r ex =
     (let fsym = getFullSymbol (symbol t)
      in if fsym \<in> executingOrders ex then (Returned (Failed AlreadyExecuting), ex)
         else
           let ex1 = ex\<lparr>executingOrders := insert fsym (executingOrders ex)\<rparr>
           in case map_of (positions (tradingBot ex1)) (symbol t) of
                None \<Rightarrow>
                  (Returned (Failed NoPosition),
                   ex1\<lparr>executingOrders := executingOrders ex1 - {fsym}\<rparr>)
              | Some pos \<Rightarrow>
                  let quantity = toFixed4 (amount pos)
                  in (Suspended,
                      ex1\<lparr>placedOrders := placedOrders ex1 @ [(fsym, ''Sell'', quantity)]\<rparr>))"

definition executeSell_resume ::
    "token \<Rightarrow> reason \<Rightarrow> awaited \<Rightarrow> OrderExecutor \<Rightarrow> outcome \<times> OrderExecutor" where
  "executeSell_resume t r a ex =
     (let fsym = getFullSymbol (symbol t)
      in case a of
           Resolved (OrderPlaced orderId) \<Rightarrow>
             (case sell t r (tradingBot ex) of
                (Inr tr, b) \<Rightarrow>
                  (Executed tr orderId,
                   ex\<lparr>tradingBot := b, executingOrders := executingOrders ex - {fsym}\<rparr>)
              | (Inl e, b) \<Rightarrow>
                  (Failed (LedgerRejected e),
                   ex\<lparr>tradingBot := b, executingOrders := executingOrders ex - {fsym}\<rparr>))
         | Resolved (OrderFailed err) \<Rightarrow>
             (Failed (ExchangeRejected err), ex\<lparr>executingOrders := executingOrders ex - {fsym}\<rparr>)
         | Thrown msg \<Rightarrow>
             (Failed (TransportFault msg), ex\<lparr>executingOrders := executingOrders ex - {fsym}\<rparr>))"

text \<open>
  A call that nothing interleaves with: the two steps back to back, \<open>a\<close> being what the
  exchange answers if it is asked.
\<close>

definition executeBuy :: "token \<Rightarrow> reason \<Rightarrow> awaited \<Rightarrow> OrderExecutor \<Rightarrow> outcome \<times> OrderExecutor" where
  "executeBuy t r a ex =
     (case executeBuy_start t r ex of
        (Returned res, ex1) \<Rightarrow> (res, ex1)
      | (Suspended, ex1) \<Rightarrow> executeBuy_resume t r a ex1)"

definition executeSell :: "token \<Rightarrow> reason \<Rightarrow> awaited \<Rightarrow> OrderExecutor \<Rightarrow> outcome \<times> OrderExecutor" where
  "executeSell t r a ex =
     (case executeSell_start t r ex of
        (Returned res, ex1) \<Rightarrow> (res, ex1)
      | (Suspended, ex1) \<Rightarrow> executeSell_resume t r a ex1)"

definition executeSignal :: "signal \<Rightarrow> awaited \<Rightarrow> OrderExecutor \<Rightarrow> outcome \<times> OrderExecutor" where
  "executeSignal s a ex =
     (if signal_type s = ''buy'' then executeBuy (signal_token s) (signal_reason s) a ex
      else if signal_type s = ''sell'' then executeSell (signal_token s) (signal_reason s) a ex
      else (Failed InvalidSignal, ex))"

definition new_OrderExecutor :: "TradingBot \<Rightarrow> OrderExecutor" where
  "new_OrderExecutor b = \<lparr>tradingBot = b, executingOrders = {}, placedOrders = []\<rparr>"

text \<open>
  A call of the guard is an \<open>executeBuy\<close> or an \<open>executeSell\<close>, with its two steps.
\<close>

datatype exec_call = ExecuteBuy token reason | ExecuteSell token reason

fun exec_token :: "exec_call \<Rightarrow> token" where
  "exec_token (ExecuteBuy t r) = t"
| "exec_token (ExecuteSell t r) = t"

fun exec_start :: "exec_call \<Rightarrow> OrderExecutor \<Rightarrow> progress \<times> OrderExecutor" where
  "exec_start (ExecuteBuy t r) ex = executeBuy_start t r ex"
| "exec_start (ExecuteSell t r) ex = executeSell_start t r ex"

fun exec_resume :: "exec_call \<Rightarrow> awaited \<Rightarrow> OrderExecutor \<Rightarrow> outcome \<times> OrderExecutor" where
  "exec_resume (ExecuteBuy t r) a ex = executeBuy_resume t r a ex"
| "exec_resume (ExecuteSell t r) a ex = executeSell_resume t r a ex"


section \<open>The price tracker: class MarketData\<close>

text \<open>
  \<open>lastUpdate\<close> is the time of the call, passed in as \<open>now\<close>. The fields the exchange
  fills (\<open>topGainers\<close>, \<open>lastTopGainersUpdate\<close>) are part of the state and no operation
  modelled here writes them.
\<close>

record tokenData =
  td_symbol :: string
  fullSymbol :: string
  td_currentPrice :: jsnum
  highestPrice :: jsnum
  lowestPrice :: jsnum
  change30m :: jsnum
  lastUpdate :: nat

record MarketData =
  topGainers :: "string list"
  staticTokens :: "string list"
  md_monitoredTokens :: "(string \<times> tokenData) list"
  prices :: "(string \<times> jsnum) list"
  lastTopGainersUpdate :: "nat option"

definition updatePrice :: "string \<Rightarrow> jsnum \<Rightarrow> nat \<Rightarrow> MarketData \<Rightarrow> MarketData" where
  "updatePrice s price now md =
     (let baseToken = getBaseToken s;
          md1 = md\<lparr>prices := AList.update s price (prices md)\<rparr>
      in case map_of (md_monitoredTokens md1) baseToken of
           Some d \<Rightarrow>
             let d1 = d\<lparr>td_currentPrice := price, lastUpdate := now\<rparr>;
                 d2 = (if js_gt price (highestPrice d1) then d1\<lparr>highestPrice := price\<rparr> else d1);
                 d3 = (if js_lt price (lowestPrice d2) then d2\<lparr>lowestPrice := price\<rparr> else d2)
             in md1\<lparr>md_monitoredTokens := AList.update baseToken d3 (md_monitoredTokens md1)\<rparr>
         | None \<Rightarrow> md1)"

definition getPrice :: "string \<Rightarrow> MarketData \<Rightarrow> jsnum" where
  "getPrice s md = js_or (map_of (prices md) s) (Num 0)"

definition getTokenData :: "string \<Rightarrow> MarketData \<Rightarrow> tokenData option" where
  "getTokenData tok md = map_of (md_monitoredTokens md) tok"

definition STATIC_TOKENS :: "string list" where
  "STATIC_TOKENS = [''BTC'', ''ETH'', ''SOL'', ''XRP'', ''ADA'']"

definition new_MarketData :: MarketData where
  "new_MarketData = \<lparr>topGainers = [], staticTokens = STATIC_TOKENS, md_monitoredTokens = [],
     prices = [], lastTopGainersUpdate = None\<rparr>"

section \<open>Runs of the ledger and of the signal engine\<close>

text \<open>
  A call of the ledger is a \<open>buy\<close> or a \<open>sell\<close>. \<open>run_calls\<close> makes the calls of a list
  one after the other and gives, for each call, the trade it returned and the ledger it
  left; it gives \<open>None\<close> as soon as a call is rejected.
\<close>

datatype ledger_call = Buy token reason | Sell token reason

fun call :: "ledger_call \<Rightarrow> TradingBot \<Rightarrow> (ledger_error + trade) \<times> TradingBot" where
  "call (Buy t r) b = buy t r b"
| "call (Sell t r) b = sell t r b"










text \<open>
  An operation of the bot is a tick of the signal engine on a list of tokens or a call of
  the ledger; a rejected call leaves the bot as it was.
\<close>

datatype bot_op = Observe "token list" | Ledger ledger_call

fun step :: "bot_op \<Rightarrow> TradingBot \<Rightarrow> TradingBot" where
  "step (Observe ts) b = fst (updateMonitoring ts b)"
| "step (Ledger c) b = snd (call c b)"

definition run :: "bot_op list \<Rightarrow> TradingBot \<Rightarrow> TradingBot" where
  "run ops b = fold step ops b"

fun buys_at_number :: "bot_op \<Rightarrow> bool" where
  "buys_at_number (Ledger (Buy t r)) = (currentPrice t \<noteq> NaN)"
| "buys_at_number opn = True"

definition peak_ok :: "TradingBot \<Rightarrow> bool" where
  "peak_ok b = list_all (\<lambda>kp. js_ge (peakPrice (snd kp)) (buyPrice (snd kp))) (positions b)"

definition ticks :: "token list list \<Rightarrow> TradingBot \<Rightarrow> TradingBot" where
  "ticks tss b = fold (\<lambda>ts b1. fst (updateMonitoring ts b1)) tss b"

text \<open>What a tick does to the position of the symbol \<open>k\<close> when it meets the token \<open>t\<close>.\<close>

definition seen :: "string \<Rightarrow> token \<Rightarrow> position \<Rightarrow> position" where
  "seen k t pos = (if symbol t = k then raisePeak (currentPrice t) pos else pos)"

text \<open>The prices a list of ticks shows for the symbol \<open>k\<close>.\<close>

definition observed :: "string \<Rightarrow> token list list \<Rightarrow> jsnum list" where
  "observed k tss = map currentPrice (filter (\<lambda>t. symbol t = k) (concat tss))"

text \<open>
  The entry \<open>monitorToken\<close> makes for a token it has not met, and the entry of a token
  after a tick has seen its current price.
\<close>

definition fresh :: "token \<Rightarrow> monitored" where
  "fresh t = \<lparr>mon_symbol = symbol t, monitorStartPrice = currentPrice t,
     mon_highestPrice = currentPrice t, mon_lowestPrice = currentPrice t\<rparr>"

definition entry :: "token \<Rightarrow> TradingBot \<Rightarrow> monitored" where
  "entry t b = observe (currentPrice t)
     (case map_of (monitoredTokens b) (symbol t) of None \<Rightarrow> fresh t | Some m \<Rightarrow> m)"


text \<open>
  The low that the engine tracks for a token once it has seen the token's current price:
  the price itself for a token it meets for the first time.
\<close>

definition trackedLow :: "token \<Rightarrow> TradingBot \<Rightarrow> jsnum" where
  "trackedLow t b =
     (case map_of (monitoredTokens b) (symbol t) of
        None \<Rightarrow> currentPrice t
      | Some m \<Rightarrow>
          if js_lt (currentPrice t) (mon_lowestPrice m) then currentPrice t
          else mon_lowestPrice m)"

section \<open>An example run\<close>

text \<open>
  A run of the program for the examples: the bot as its constructor makes it by default
  (balance 10000, thresholds 2 and 3, 25 per cent per trade, minimum 1, four positions),
  one token, and the states the bot goes through when the token is seen at 100, rises to
  102, is bought there with the exchange accepting the order, rises to 110 and falls to
  106.59.
\<close>

definition btc :: "rat \<Rightarrow> token" where
  "btc p = \<lparr>symbol = ''BTC'', currentPrice = Num p\<rparr>"

definition default_bot :: TradingBot where
  "default_bot = new_TradingBot empty_arg"

definition watching :: TradingBot where
  "watching = fst (updateMonitoring [btc 100] default_bot)"

definition risen :: "TradingBot \<times> signal list" where
  "risen = updateMonitoring [btc 102] watching"

definition bought :: "(outcome \<times> OrderExecutor) list" where
  "bought = map (\<lambda>s. executeSignal s (Resolved (OrderPlaced ''order-1''))
                       (new_OrderExecutor (fst risen))) (snd risen)"

definition first_buy :: trade where
  "first_buy = \<lparr>trade_type = ''buy'', trade_symbol = ''BTC'', trade_price = Num 102,
          trade_amount = Num (1250 / 51), trade_total = Num 2500,
          trade_reason = PriceIncreased (Num 2), trade_buyPrice = None,
          trade_peakPrice = None, trade_profit = None,
          trade_profitPercent = None\<rparr>"

definition holding :: TradingBot where
  "holding = snd (buy (btc 102) (PriceIncreased (Num 2)) (fst risen))"



text \<open>The buy at 102 followed by the ticks at 110 and at 106.59.\<close>

definition session :: "bot_op list" where
  "session = [Ledger (Buy (btc 102) (PriceIncreased (Num 2))), Observe [btc 110],
              Observe [btc (10659 / 100)]]"

text \<open>
  The guard of the example run before the buy at 102, and as it is while that order is
  with the exchange.
\<close>

definition guard0 :: OrderExecutor where
  "guard0 = new_OrderExecutor (fst risen)"

definition in_flight :: OrderExecutor where
  "in_flight = guard0\<lparr>executingOrders := {''BTCUSDT''},
     placedOrders := [(''BTCUSDT'', ''Buy'', Num (122549 / 5000))]\<rparr>"

section \<open>One tick of the signal engine\<close>

lemma map_of_update: "map_of (AList.update k v al) k' = (if k' = k then Some v else map_of al k')"
  by (simp add: update_conv')


lemma monitorToken_frame:
  "config (monitorToken t b) = config b"
  "positions (monitorToken t b) = positions b"
  "balance (monitorToken t b) = balance b"
  by (simp_all add: monitorToken_def)

lemma monitorToken_lookup:
  "map_of (monitoredTokens (monitorToken t b)) (symbol t) =
     Some (case map_of (monitoredTokens b) (symbol t) of None \<Rightarrow> fresh t | Some m \<Rightarrow> m)"
  by (auto simp: monitorToken_def map_has_def map_of_update fresh_def)


lemma updateToken_held:
  assumes "map_of (positions b) (symbol t) = Some pos0"
  shows "updateToken t (b, sigs) =
     (let pos = raisePeak (currentPrice t) pos0;
          b3 = (monitorToken t b)\<lparr>monitoredTokens := AList.update (symbol t) (entry t b) (monitoredTokens (monitorToken t b)),
                  positions := AList.update (symbol t) pos (positions b)\<rparr>;
          d = dropFromPeak pos (currentPrice t)
      in (b3, if js_ge d (sellThreshold (config b))
              then sigs @ [\<lparr>signal_type = ''sell'', signal_token = t, signal_reason = PriceDropped d (peakPrice pos)\<rparr>]
              else sigs))"
  using assms
  by (simp add: updateToken_def monitorToken_lookup monitorToken_frame entry_def Let_def)

lemma updateToken_flat:
  assumes "map_of (positions b) (symbol t) = None"
  shows "updateToken t (b, sigs) =
     (let b2 = (monitorToken t b)\<lparr>monitoredTokens := AList.update (symbol t) (entry t b) (monitoredTokens (monitorToken t b))\<rparr>;
          i = increaseFromLowest (entry t b) (currentPrice t)
      in (b2, if js_ge i (buyThreshold (config b)) \<and> js_lt (map_size (positions b)) (maxPositions (config b))
              then sigs @ [\<lparr>signal_type = ''buy'', signal_token = t, signal_reason = PriceIncreased i\<rparr>]
              else sigs))"
  using assms
  by (simp add: updateToken_def monitorToken_lookup monitorToken_frame entry_def Let_def)





lemma updateToken_positions:
  "positions (fst (updateToken t acc)) =
     (case map_of (positions (fst acc)) (symbol t) of
        None \<Rightarrow> positions (fst acc)
      | Some pos0 \<Rightarrow> AList.update (symbol t) (raisePeak (currentPrice t) pos0) (positions (fst acc)))"
proof (cases acc)
  case (Pair b sigs)
  show ?thesis
  proof (cases "map_of (positions b) (symbol t)")
    case None
    then show ?thesis using Pair by (simp add: updateToken_flat Let_def monitorToken_frame)
  next
    case (Some pos0)
    then show ?thesis using Pair by (simp add: updateToken_held Let_def monitorToken_frame)
  qed
qed


lemma updateToken_position_other:
  "k \<noteq> symbol t \<Longrightarrow>
   map_of (positions (fst (updateToken t acc))) k = map_of (positions (fst acc)) k"
  by (simp add: updateToken_positions map_of_update split: option.splits)

lemma updateToken_position_same:
  "map_of (positions (fst (updateToken t acc))) (symbol t) =
   map_option (raisePeak (currentPrice t)) (map_of (positions (fst acc)) (symbol t))"
  by (simp add: updateToken_positions map_of_update split: option.splits)





lemma js_lt_irrefl: "\<not> js_lt x x"
  by (cases x) simp_all

lemma entry_low: "mon_lowestPrice (entry t b) = trackedLow t b"
  by (simp add: entry_def trackedLow_def observe_def fresh_def Let_def js_lt_irrefl split: option.splits)





text \<open>The states of the example run, evaluated.\<close>

lemma default_bot_eq: "default_bot =
   \<lparr>config = \<lparr>initialBalance_cfg = Num 10000, buyThreshold = Num 2, sellThreshold = Num 3,
        tradeAmountPercent = Num 25, minTradeAmount = Num 1, maxPositions = Num 4\<rparr>,
     balance = Num 10000, initialBalance = Num 10000, positions = [], monitoredTokens = [],
     tradeHistory = [], stats = \<lparr>totalTrades = 0, winningTrades = 0, losingTrades = 0\<rparr>\<rparr>"
  by code_simp

lemma watching_eq: "watching = default_bot\<lparr>monitoredTokens :=
    [(''BTC'', \<lparr>mon_symbol = ''BTC'', monitorStartPrice = Num 100, mon_highestPrice = Num 100, mon_lowestPrice = Num 100\<rparr>)]\<rparr>"
  by code_simp

lemma holding_eq: "holding = default_bot\<lparr>balance := Num 7500,
    positions := [(''BTC'', \<lparr>pos_symbol = ''BTC'', amount = Num (1250 / 51), buyPrice = Num 102, peakPrice = Num 102\<rparr>)],
    monitoredTokens :=
    [(''BTC'', \<lparr>mon_symbol = ''BTC'', monitorStartPrice = Num 100, mon_highestPrice = Num 102, mon_lowestPrice = Num 102\<rparr>)],
    tradeHistory := [first_buy], stats := \<lparr>totalTrades = 1, winningTrades = 0, losingTrades = 0\<rparr>\<rparr>"
  by code_simp


lemma watching_facts:
  "map_of (positions watching) ''BTC'' = None"
  "map_of (monitoredTokens watching) ''BTC'' =
     Some \<lparr>mon_symbol = ''BTC'', monitorStartPrice = Num 100, mon_highestPrice = Num 100,
           mon_lowestPrice = Num 100\<rparr>"
  "buyThreshold (config watching) = Num 2"
  "js_lt (map_size (positions watching)) (maxPositions (config watching))"
  by (simp_all add: watching_eq default_bot_eq map_size_def)

lemma holding_facts:
  "map_of (positions holding) ''BTC'' =
     Some \<lparr>pos_symbol = ''BTC'', amount = Num (1250 / 51), buyPrice = Num 102, peakPrice = Num 102\<rparr>"
  "sellThreshold (config holding) = Num 3"
  by (simp_all add: holding_eq default_bot_eq)






section \<open>The ledger\<close>

lemma list_all_update:
  "list_all P al \<Longrightarrow> P (k, v) \<Longrightarrow> list_all P (AList.update k v al)"
  by (induction al) auto

lemma list_all_delete:
  "list_all P al \<Longrightarrow> list_all P (AList.delete k al)"
  by (induction al) auto

lemma list_all_lookup:
  "list_all P al \<Longrightarrow> map_of al k = Some v \<Longrightarrow> P (k, v)"
  by (auto simp: list_all_iff dest: map_of_SomeD)

lemma buy_success:
  assumes "buy t r b = (Inr tr, b1)"
  shows "trade_total tr = tradeAmountOf b"
    and "balance b1 = js_sub (balance b) (tradeAmountOf b)"
    and "\<not> js_lt (balance b) (tradeAmountOf b)"
    and "\<not> js_lt (tradeAmountOf b) (minTradeAmount (config b))"
    and "config b1 = config b"
    and "positions b1 = AList.update (symbol t)
           \<lparr>pos_symbol = symbol t, amount = js_div (tradeAmountOf b) (currentPrice t),
            buyPrice = currentPrice t, peakPrice = currentPrice t\<rparr> (positions b)"
  using assms by (auto simp: buy_def Let_def split: if_splits)

lemma sell_success:
  assumes "sell t r b = (Inr tr, b1)"
  obtains pos where "map_of (positions b) (symbol t) = Some pos"
    and "trade_total tr = js_mul (amount pos) (currentPrice t)"
    and "balance b1 = js_add (balance b) (js_mul (amount pos) (currentPrice t))"
    and "config b1 = config b"
    and "positions b1 = AList.delete (symbol t) (positions b)"
  using assms by (cases "map_of (positions b) (symbol t)") (auto simp: sell_def Let_def)














text \<open>
  Claim C8. A \<open>sell\<close> that succeeds finds a position for the symbol; it credits the
  balance with quantity times price, removes the position, puts a sell trade at the head
  of the history whose profit is the proceeds less quantity times entry price and whose
  \<open>profitPercent\<close> is the profit over quantity times entry price, times 100; it counts
  one more trade, and one more winning trade if the profit is above zero, one more losing
  trade otherwise, so also when the profit is exactly zero.
\<close>

theorem sell_effect:
  assumes "sell t r b = (Inr tr, b1)"
  shows "\<exists>pos. map_of (positions b) (symbol t) = Some pos \<and>
           (let proceeds = js_mul (amount pos) (currentPrice t);
                cost = js_mul (amount pos) (buyPrice pos);
                profit = js_sub proceeds cost
            in balance b1 = js_add (balance b) proceeds \<and>
               positions b1 = AList.delete (symbol t) (positions b) \<and>
               map_of (positions b1) (symbol t) = None \<and>
               tradeHistory b1 = tr # tradeHistory b \<and>
               trade_type tr = ''sell'' \<and> trade_symbol tr = symbol t \<and>
               trade_total tr = proceeds \<and>
               trade_profit tr = Some profit \<and>
               trade_profitPercent tr = Some (js_mul (js_div profit cost) (Num 100)) \<and>
               totalTrades (stats b1) = totalTrades (stats b) + 1 \<and>
               winningTrades (stats b1) =
                 (if js_gt profit (Num 0) then winningTrades (stats b) + 1 else winningTrades (stats b)) \<and>
               losingTrades (stats b1) =
                 (if js_gt profit (Num 0) then losingTrades (stats b) else losingTrades (stats b) + 1) \<and>
               (profit = Num 0 \<longrightarrow>
                  winningTrades (stats b1) = winningTrades (stats b) \<and>
                  losingTrades (stats b1) = losingTrades (stats b) + 1))"
proof (cases "map_of (positions b) (symbol t)")
  case None
  with assms show ?thesis by (simp add: sell_def)
next
  case (Some pos)
  with assms show ?thesis
    by (auto simp: sell_def Let_def delete_conv' js_gt_def)
qed

text \<open>
  The theorem on the example run: the position bought at 102 is sold at 102 with a profit
  of zero, which counts as a losing trade, and at 110 with a profit, which counts as a
  winning one.
\<close>

theorem sell_effect_witness:
  "losingTrades (stats (snd (sell (btc 102) EmergencyClose holding))) = 1 \<and>
   winningTrades (stats (snd (sell (btc 102) EmergencyClose holding))) = 0 \<and>
   winningTrades (stats (snd (sell (btc 110) EmergencyClose holding))) = 1 \<and>
   balance (snd (sell (btc 110) EmergencyClose holding)) = Num (7500 + 1250 / 51 * 110)"
proof -
  let ?p = "\<lparr>pos_symbol = ''BTC'', amount = Num (1250 / 51), buyPrice = Num 102, peakPrice = Num 102\<rparr>"
  have h: "map_of (positions holding) (symbol (btc p)) = Some ?p" for p
    by (simp add: holding_facts btc_def)
  have s: "totalTrades (stats holding) = 1" "winningTrades (stats holding) = 0"
    "losingTrades (stats holding) = 0" "balance holding = Num 7500"
    by (simp_all add: holding_eq default_bot_eq)
  obtain tr b1 where e: "sell (btc 102) EmergencyClose holding = (Inr tr, b1)"
    by (simp add: sell_def h Let_def)
  obtain tr' b2 where e': "sell (btc 110) EmergencyClose holding = (Inr tr', b2)"
    by (simp add: sell_def h Let_def)
  have "losingTrades (stats b1) = 1 \<and> winningTrades (stats b1) = 0"
    using sell_effect[OF e] by (clarsimp simp: holding_facts s btc_def Let_def js_sub_def js_gt_def)
  moreover have "winningTrades (stats b2) = 1 \<and> balance b2 = Num (7500 + 1250 / 51 * 110)"
    using sell_effect[OF e'] by (clarsimp simp: holding_facts s btc_def Let_def js_sub_def js_gt_def)
  ultimately show ?thesis by (simp add: e e')
qed

section \<open>From the signal to the ledger\<close>

lemma js_lt_not_le: "js_lt x y \<Longrightarrow> \<not> js_le y x"
  by (cases x; cases y) (auto simp: js_le_def)

lemma round4_example: "round4 (1250 / 51) = 122549 / 5000"
  by code_simp

text \<open>
  Claim C6, as amended. From a balance of 10000 with 25 per cent per trade, a minimum of
  1, a buy threshold of 2, no open position and room for one, a tracked low of 100 and a
  current price of 102: the tick gives one signal, a buy signal for the token, and its
  execution, the exchange accepting the order, gives a trade with notional 2500 and
  quantity 2500 / 102 (the notional over the current price, about 24.5098, which is the
  quantity of the order sent to the exchange), a balance of 7500 and exactly one open
  position, with entry price and peak 102 and that quantity.
\<close>

theorem rise_and_buy:
  assumes "balance b = Num 10000" and "tradeAmountPercent (config b) = Num 25"
    and "minTradeAmount (config b) = Num 1" and "buyThreshold (config b) = Num 2"
    and "positions b = []" and "js_lt (Num 0) (maxPositions (config b))"
    and "map_of (monitoredTokens b) k = Some m" and "mon_lowestPrice m = Num 100"
    and "t = \<lparr>symbol = k, currentPrice = Num 102\<rparr>"
  shows "\<exists>b1 s tr ex1.
           updateMonitoring [t] b = (b1, [s]) \<and>
           signal_type s = ''buy'' \<and> signal_token s = t \<and>
           executeSignal s (Resolved (OrderPlaced oid)) (new_OrderExecutor b1) = (Executed tr oid, ex1) \<and>
           trade_total tr = Num 2500 \<and>
           trade_amount tr = Num (2500 / 102) \<and>
           balance (tradingBot ex1) = Num 7500 \<and>
           positions (tradingBot ex1) =
             [(k, \<lparr>pos_symbol = k, amount = Num (2500 / 102), buyPrice = Num 102, peakPrice = Num 102\<rparr>)] \<and>
           placedOrders ex1 = [(getFullSymbol k, ''Buy'', Num (245098 / 10000))] \<and>
           executingOrders ex1 = {}"
proof -
  note cfg = assms(1-8)
  have st: "symbol t = k" and ct: "currentPrice t = Num 102" using assms(9) by simp_all
  have flat: "map_of (positions b) (symbol t) = None" using cfg by simp
  have mon: "monitorToken t b = b" using cfg by (simp add: monitorToken_def map_has_def st)
  have low: "mon_lowestPrice (entry t b) = Num 100"
    using cfg by (simp add: entry_low trackedLow_def st ct)
  define b1 where "b1 = b\<lparr>monitoredTokens := AList.update k (entry t b) (monitoredTokens b)\<rparr>"
  define s where "s = \<lparr>signal_type = ''buy'', signal_token = t, signal_reason = PriceIncreased (Num 2)\<rparr>"
  have tick: "updateMonitoring [t] b = (b1, [s])"
    using cfg low
    by (simp add: updateMonitoring_def updateToken_flat[OF flat] mon increaseFromLowest_def
        js_sub_def js_ge_def js_le_def map_size_def Let_def b1_def s_def st ct)
  have b1: "balance b1 = Num 10000" "config b1 = config b" "positions b1 = []"
    using cfg by (simp_all add: b1_def)
  have full: "\<not> js_ge (map_size (positions b1)) (maxPositions (config b1))"
    using js_lt_not_le[OF assms(6)] by (simp add: b1 js_ge_def map_size_def)
  have amt: "tradeAmountOf b1 = Num 2500"
    using cfg by (simp add: tradeAmountOf_def b1)
  obtain tr b2 where buy: "buy t (PriceIncreased (Num 2)) b1 = (Inr tr, b2)"
    and tr: "trade_total tr = Num 2500" "trade_amount tr = Num (2500 / 102)"
    and b2: "balance b2 = Num 7500"
      "positions b2 = [(k, \<lparr>pos_symbol = k, amount = Num (2500 / 102), buyPrice = Num 102, peakPrice = Num 102\<rparr>)]"
    using cfg full by (simp add: buy_def amt b1 Let_def js_sub_def st ct)
  define ex1 where "ex1 = \<lparr>tradingBot = b2, executingOrders = {},
     placedOrders = [(getFullSymbol k, ''Buy'', Num (245098 / 10000))]\<rparr>"
  have "executeSignal s (Resolved (OrderPlaced oid)) (new_OrderExecutor b1) = (Executed tr oid, ex1)"
    using cfg buy
    by (simp add: executeSignal_def executeBuy_def executeBuy_start_def executeBuy_resume_def
        new_OrderExecutor_def s_def amt b1 round4_example Let_def ex1_def st ct)
  then show ?thesis using tick tr b2 by (simp add: s_def ex1_def)
qed

text \<open>The theorem on the example run.\<close>

theorem rise_and_buy_witness:
  "\<exists>b1 s tr ex1.
     updateMonitoring [btc 102] watching = (b1, [s]) \<and>
     signal_type s = ''buy'' \<and> signal_token s = btc 102 \<and>
     executeSignal s (Resolved (OrderPlaced ''order-1'')) (new_OrderExecutor b1) =
       (Executed tr ''order-1'', ex1) \<and>
     trade_total tr = Num 2500 \<and> trade_amount tr = Num (1250 / 51) \<and>
     balance (tradingBot ex1) = Num 7500 \<and>
     positions (tradingBot ex1) =
       [(''BTC'', \<lparr>pos_symbol = ''BTC'', amount = Num (1250 / 51), buyPrice = Num 102,
                   peakPrice = Num 102\<rparr>)] \<and>
     placedOrders ex1 = [(''BTCUSDT'', ''Buy'', Num (122549 / 5000))] \<and>
     executingOrders ex1 = {}"
proof -
  have c: "balance watching = Num 10000" "tradeAmountPercent (config watching) = Num 25"
    "minTradeAmount (config watching) = Num 1" "buyThreshold (config watching) = Num 2"
    "positions watching = []" "js_lt (Num 0) (maxPositions (config watching))"
    by (simp_all add: watching_eq default_bot_eq)
  have m: "mon_lowestPrice \<lparr>mon_symbol = ''BTC'', monitorStartPrice = Num 100,
             mon_highestPrice = Num 100, mon_lowestPrice = Num 100\<rparr> = Num 100"
    by simp
  show ?thesis
    using rise_and_buy[OF c watching_facts(2) m, of "btc 102" "''order-1''"]
    by (simp add: btc_def getFullSymbol_def QUOTE_CURRENCY_def)
qed

text \<open>
  In the example run every premise of the scenario holds, and the quantity bought is
  1250 / 51, not 25: in the trade, in the position and, rounded to 24.5098, in the order.
\<close>

theorem scenario_quantity_counterexample:
  "balance watching = Num 10000 \<and> tradeAmountPercent (config watching) = Num 25 \<and>
   minTradeAmount (config watching) = Num 1 \<and> positions watching = [] \<and>
   trackedLow (btc 102) watching = Num 100 \<and>
   snd risen = [\<lparr>signal_type = ''buy'', signal_token = btc 102,
                  signal_reason = PriceIncreased (Num 2)\<rparr>] \<and>
   bought = [(Executed first_buy ''order-1'',
              \<lparr>tradingBot = holding, executingOrders = {},
                placedOrders = [(''BTCUSDT'', ''Buy'', Num (122549 / 5000))]\<rparr>)] \<and>
   trade_total first_buy = Num 2500 \<and>
   trade_amount first_buy = Num (1250 / 51) \<and> trade_amount first_buy \<noteq> Num 25 \<and>
   balance holding = Num 7500 \<and>
   positions holding =
     [(''BTC'', \<lparr>pos_symbol = ''BTC'', amount = Num (1250 / 51), buyPrice = Num 102,
                 peakPrice = Num 102\<rparr>)] \<and>
   Num (122549 / 5000) \<noteq> Num 25"
  by code_simp

section \<open>The peak of a position\<close>

lemma js_lt_trans: "js_lt a b \<Longrightarrow> js_lt b c \<Longrightarrow> js_lt a c"
  by (cases a; cases b; cases c) simp_all

lemma js_ge_refl: "x \<noteq> NaN \<Longrightarrow> js_ge x x"
  by (simp add: js_ge_def js_le_def)

lemma js_ge_raise: "js_ge x e \<Longrightarrow> js_gt p x \<Longrightarrow> js_ge p e"
  by (auto simp: js_ge_def js_le_def js_gt_def dest: js_lt_trans)

lemma raisePeak_fields:
  "buyPrice (raisePeak p pos) = buyPrice pos"
  "amount (raisePeak p pos) = amount pos"
  "pos_symbol (raisePeak p pos) = pos_symbol pos"
  "peakPrice (raisePeak p pos) = (if js_gt p (peakPrice pos) then p else peakPrice pos)"
  by (simp_all add: raisePeak_def)

lemma raisePeak_ok:
  "js_ge (peakPrice pos) (buyPrice pos) \<Longrightarrow>
   js_ge (peakPrice (raisePeak p pos)) (buyPrice (raisePeak p pos))"
  by (auto simp: raisePeak_fields intro: js_ge_raise)

lemma updateToken_peak_ok:
  assumes "peak_ok (fst acc)"
  shows "peak_ok (fst (updateToken t acc))"
proof (cases "map_of (positions (fst acc)) (symbol t)")
  case None
  then show ?thesis using assms by (simp add: peak_ok_def updateToken_positions)
next
  case (Some pos0)
  from assms have all: "list_all (\<lambda>kp. js_ge (peakPrice (snd kp)) (buyPrice (snd kp))) (positions (fst acc))"
    by (simp add: peak_ok_def)
  from list_all_lookup[OF all Some] have "js_ge (peakPrice pos0) (buyPrice pos0)" by simp
  then have "js_ge (peakPrice (raisePeak (currentPrice t) pos0)) (buyPrice (raisePeak (currentPrice t) pos0))"
    by (rule raisePeak_ok)
  then show ?thesis using all Some
    by (simp add: peak_ok_def updateToken_positions list_all_update)
qed

lemma updateMonitoring_peak_ok:
  "peak_ok b \<Longrightarrow> peak_ok (fst (updateMonitoring ts b))"
proof -
  have "peak_ok (fst acc) \<Longrightarrow> peak_ok (fst (fold updateToken ts acc))" for acc
    by (induction ts arbitrary: acc) (simp_all add: updateToken_peak_ok)
  from this[of "(b, [])"] show "peak_ok b \<Longrightarrow> peak_ok (fst (updateMonitoring ts b))"
    by (simp add: updateMonitoring_def)
qed

lemma buy_failure: "buy t r b = (Inl e, b1) \<Longrightarrow> b1 = b"
  by (auto simp: buy_def Let_def split: if_splits)

lemma sell_failure: "sell t r b = (Inl e, b1) \<Longrightarrow> b1 = b"
  by (auto simp: sell_def Let_def split: option.splits)

lemma buy_peak_ok:
  assumes "peak_ok b" and "currentPrice t \<noteq> NaN"
  shows "peak_ok (snd (buy t r b))"
proof (cases "buy t r b")
  case (Pair res b1)
  show ?thesis
  proof (cases res)
    case (Inl e)
    with Pair assms show ?thesis by (auto dest: buy_failure)
  next
    case (Inr tr)
    with Pair have "buy t r b = (Inr tr, b1)" by simp
    from buy_success(6)[OF this] assms Pair show ?thesis
      by (simp add: peak_ok_def list_all_update js_ge_refl)
  qed
qed

lemma sell_peak_ok:
  assumes "peak_ok b"
  shows "peak_ok (snd (sell t r b))"
proof (cases "sell t r b")
  case (Pair res b1)
  show ?thesis
  proof (cases res)
    case (Inl e)
    with Pair assms show ?thesis by (auto dest: sell_failure)
  next
    case (Inr tr)
    with Pair have "sell t r b = (Inr tr, b1)" by simp
    then show ?thesis using assms Pair
      by (elim sell_success) (simp add: peak_ok_def list_all_delete)
  qed
qed

lemma step_peak_ok:
  assumes "peak_ok b" and "buys_at_number opn"
  shows "peak_ok (step opn b)"
proof (cases opn)
  case (Observe ts)
  then show ?thesis using assms by (simp add: updateMonitoring_peak_ok)
next
  case (Ledger c)
  then show ?thesis using assms by (cases c) (simp_all add: buy_peak_ok sell_peak_ok)
qed

lemma run_peak_ok:
  "peak_ok b \<Longrightarrow> list_all buys_at_number ops \<Longrightarrow> peak_ok (run ops b)"
  unfolding run_def by (induction ops arbitrary: b) (simp_all add: step_peak_ok)

lemma buy_opens:
  assumes "buy t r b = (Inr tr, b1)"
  shows "map_of (positions b1) (symbol t) =
           Some \<lparr>pos_symbol = symbol t, amount = js_div (tradeAmountOf b) (currentPrice t),
                 buyPrice = currentPrice t, peakPrice = currentPrice t\<rparr>"
  using buy_success(6)[OF assms] by (simp add: map_of_update)

lemma updateToken_position_at:
  "map_of (positions (fst (updateToken t acc))) k =
   map_option (seen k t) (map_of (positions (fst acc)) k)"
proof (cases "k = symbol t")
  case True
  then show ?thesis by (simp add: updateToken_position_same seen_def cong: map_option_cong)
next
  case False
  then have "seen k t = (\<lambda>pos. pos)" by (auto simp: seen_def)
  with False show ?thesis by (simp add: updateToken_position_other option.map_ident)
qed

lemma fold_updateToken_position_at:
  "map_of (positions (fst (fold updateToken ts acc))) k =
   map_option (fold (seen k) ts) (map_of (positions (fst acc)) k)"
  by (induction ts arbitrary: acc)
     (simp_all add: updateToken_position_at option.map_comp option.map_ident option.map_id comp_def)

lemma ticks_position_at:
  "map_of (positions (ticks tss b)) k =
   map_option (fold (seen k) (concat tss)) (map_of (positions b) k)"
proof (induction tss arbitrary: b)
  case Nil
  show ?case by (simp add: ticks_def option.map_ident option.map_id)
next
  case (Cons ts tss)
  have "ticks (ts # tss) b = ticks tss (fst (updateMonitoring ts b))"
    by (simp add: ticks_def)
  then show ?case
    using Cons.IH[of "fst (updateMonitoring ts b)"]
      fold_updateToken_position_at[of ts "(b, [])" k]
    by (simp add: updateMonitoring_def option.map_comp comp_def)
qed

lemma fold_seen:
  "buyPrice (fold (seen k) ts pos) = buyPrice pos \<and>
   (peakPrice (fold (seen k) ts pos) = peakPrice pos \<or>
    js_gt (peakPrice (fold (seen k) ts pos)) (peakPrice pos) \<and>
    peakPrice (fold (seen k) ts pos) \<in> set (map currentPrice (filter (\<lambda>t. symbol t = k) ts)))"
proof (induction ts arbitrary: pos)
  case Nil
  show ?case by simp
next
  case (Cons t ts)
  let ?p1 = "seen k t pos"
  have one: "buyPrice ?p1 = buyPrice pos"
    "peakPrice ?p1 = peakPrice pos \<or>
     js_gt (peakPrice ?p1) (peakPrice pos) \<and> symbol t = k \<and> peakPrice ?p1 = currentPrice t"
    by (auto simp: seen_def raisePeak_fields)
  from Cons.IH[of ?p1] one show ?case
    by (auto simp: js_gt_def dest: js_lt_trans)
qed

text \<open>
  Claim C4. Every open position has \<open>peakPrice \<ge> entryPrice\<close>: this holds of a bot just
  constructed and is kept by every tick, by every \<open>sell\<close> and by every \<open>buy\<close> at a price
  that is a number (not NaN). A successful \<open>buy\<close> leaves the position of its symbol with
  entry price and peak both equal to the price of the buy. Across any list of ticks, a
  position that is held stays held with the same entry price, and its peak is either
  what it was or a higher price, one of the current prices the ticks showed for the
  symbol.
\<close>

theorem peak_invariant:
  "peak_ok (new_TradingBot a) \<and>
   (peak_ok b \<and> list_all buys_at_number ops \<longrightarrow> peak_ok (run ops b)) \<and>
   (buy t r b0 = (Inr tr, b1) \<longrightarrow>
      (\<exists>pos. map_of (positions b1) (symbol t) = Some pos \<and>
             buyPrice pos = currentPrice t \<and> peakPrice pos = currentPrice t)) \<and>
   (map_of (positions bh) k = Some pos \<longrightarrow>
      (\<exists>pos1. map_of (positions (ticks tss bh)) k = Some pos1 \<and>
              buyPrice pos1 = buyPrice pos \<and>
              (peakPrice pos1 = peakPrice pos \<or>
               js_gt (peakPrice pos1) (peakPrice pos) \<and>
               peakPrice pos1 \<in> set (observed k tss))))"
proof (intro conjI impI)
  show "peak_ok (new_TradingBot a)"
    by (simp add: peak_ok_def new_TradingBot_def Let_def)
next
  assume "peak_ok b \<and> list_all buys_at_number ops"
  then show "peak_ok (run ops b)" by (simp add: run_peak_ok)
next
  assume "buy t r b0 = (Inr tr, b1)"
  from buy_opens[OF this]
  show "\<exists>pos. map_of (positions b1) (symbol t) = Some pos \<and>
             buyPrice pos = currentPrice t \<and> peakPrice pos = currentPrice t"
    by simp
next
  assume held: "map_of (positions bh) k = Some pos"
  let ?pos1 = "fold (seen k) (concat tss) pos"
  have "map_of (positions (ticks tss bh)) k = Some ?pos1"
    by (simp add: ticks_position_at held)
  then show "\<exists>pos1. map_of (positions (ticks tss bh)) k = Some pos1 \<and>
              buyPrice pos1 = buyPrice pos \<and>
              (peakPrice pos1 = peakPrice pos \<or>
               js_gt (peakPrice pos1) (peakPrice pos) \<and>
               peakPrice pos1 \<in> set (observed k tss))"
    using fold_seen[of k "concat tss" pos] unfolding observed_def by blast
qed

lemma session_positions:
  "map (\<lambda>kp. (buyPrice (snd kp), peakPrice (snd kp))) (positions (run session default_bot)) =
     [(Num 102, Num 110)]"
  by code_simp

lemma session_ticks:
  "map_option peakPrice (map_of (positions (ticks [[btc 110], [btc (10659 / 100)]] holding)) ''BTC'') =
     Some (Num 110)"
  by code_simp

text \<open>
  The theorem on the example run: after the buy at 102 and the ticks at 110 and 106.59
  the position has entry price 102 and peak 110.
\<close>

theorem peak_invariant_witness:
  "peak_ok (run session default_bot) \<and>
   map (\<lambda>kp. (buyPrice (snd kp), peakPrice (snd kp))) (positions (run session default_bot)) =
     [(Num 102, Num 110)] \<and>
   map_option peakPrice (map_of (positions (ticks [[btc 110], [btc (10659 / 100)]] holding)) ''BTC'') =
     Some (Num 110) \<and>
   (\<exists>pos1. map_of (positions (ticks [[btc 110], [btc (10659 / 100)]] holding)) ''BTC'' = Some pos1 \<and>
      buyPrice pos1 = Num 102 \<and>
      (peakPrice pos1 = Num 102 \<or>
       js_gt (peakPrice pos1) (Num 102) \<and>
       peakPrice pos1 \<in> set [Num 110, Num (10659 / 100)]))"
proof -
  let ?p = "\<lparr>pos_symbol = ''BTC'', amount = Num (1250 / 51), buyPrice = Num 102, peakPrice = Num 102\<rparr>"
  note inst = peak_invariant[where a = empty_arg and b = default_bot and ops = session
      and bh = holding and k = "''BTC''" and pos = ?p
      and tss = "[[btc 110], [btc (10659 / 100)]]"]
  have start: "peak_ok default_bot" using inst by (simp add: default_bot_def)
  have ops: "list_all buys_at_number session" by (simp add: session_def btc_def)
  have "peak_ok (run session default_bot)" using inst start ops by blast
  moreover have "\<exists>pos1. map_of (positions (ticks [[btc 110], [btc (10659 / 100)]] holding)) ''BTC'' = Some pos1 \<and>
      buyPrice pos1 = Num 102 \<and>
      (peakPrice pos1 = Num 102 \<or>
       js_gt (peakPrice pos1) (Num 102) \<and>
       peakPrice pos1 \<in> set [Num 110, Num (10659 / 100)])"
    using inst holding_facts(1) by (simp add: observed_def btc_def)
  ultimately show ?thesis using session_positions session_ticks by blast
qed

section \<open>The execution guard\<close>




lemma executeBuy_start_cases:
  assumes "getFullSymbol (symbol t) \<notin> executingOrders ex"
  shows "(executeBuy_start t r ex = (Returned (Failed BelowMinimum), ex)) \<or>
         (executeBuy_start t r ex = (Suspended,
            ex\<lparr>executingOrders := insert (getFullSymbol (symbol t)) (executingOrders ex),
               placedOrders := placedOrders ex @
                 [(getFullSymbol (symbol t), ''Buy'',
                   toFixed4 (js_div (tradeAmountOf (tradingBot ex)) (currentPrice t)))]\<rparr>))"
  using assms by (simp add: executeBuy_start_def Let_def)

lemma executeSell_start_cases:
  assumes "getFullSymbol (symbol t) \<notin> executingOrders ex"
  shows "(executeSell_start t r ex = (Returned (Failed NoPosition), ex)) \<or>
         (\<exists>pos. map_of (positions (tradingBot ex)) (symbol t) = Some pos \<and>
          executeSell_start t r ex = (Suspended,
            ex\<lparr>executingOrders := insert (getFullSymbol (symbol t)) (executingOrders ex),
               placedOrders := placedOrders ex @
                 [(getFullSymbol (symbol t), ''Sell'', toFixed4 (amount pos))]\<rparr>))"
  using assms by (cases "map_of (positions (tradingBot ex)) (symbol t)") (simp_all add: executeSell_start_def Let_def)

lemma executeBuy_resume_effect:
  "executingOrders (snd (executeBuy_resume t r a ex)) = executingOrders ex - {getFullSymbol (symbol t)} \<and>
   placedOrders (snd (executeBuy_resume t r a ex)) = placedOrders ex \<and>
   fst (executeBuy_resume t r a ex) \<noteq> Failed AlreadyExecuting"
  by (simp add: executeBuy_resume_def Let_def split: awaited.splits orderResult.splits prod.splits sum.splits)

lemma executeSell_resume_effect:
  "executingOrders (snd (executeSell_resume t r a ex)) = executingOrders ex - {getFullSymbol (symbol t)} \<and>
   placedOrders (snd (executeSell_resume t r a ex)) = placedOrders ex \<and>
   fst (executeSell_resume t r a ex) \<noteq> Failed AlreadyExecuting"
  by (simp add: executeSell_resume_def Let_def split: awaited.splits orderResult.splits prod.splits sum.splits)

lemma exec_resume_effect:
  "executingOrders (snd (exec_resume c a ex)) = executingOrders ex - {getFullSymbol (symbol (exec_token c))} \<and>
   placedOrders (snd (exec_resume c a ex)) = placedOrders ex \<and>
   fst (exec_resume c a ex) \<noteq> Failed AlreadyExecuting"
  by (cases c) (simp_all add: executeBuy_resume_effect executeSell_resume_effect)

lemma exec_start_cases:
  assumes "getFullSymbol (symbol (exec_token c)) \<notin> executingOrders ex"
  shows "(\<exists>res. exec_start c ex = (Returned res, ex) \<and> res \<noteq> Failed AlreadyExecuting) \<or>
         (\<exists>order. exec_start c ex = (Suspended,
            ex\<lparr>executingOrders := insert (getFullSymbol (symbol (exec_token c))) (executingOrders ex),
               placedOrders := placedOrders ex @ [order]\<rparr>))"
proof (cases c)
  case (ExecuteBuy t r)
  then show ?thesis using executeBuy_start_cases[of t ex r] assms by auto
next
  case (ExecuteSell t r)
  then show ?thesis using executeSell_start_cases[of t ex r] assms by auto
qed

lemma guard0_start:
  "executeBuy_start (btc 102) EmergencyClose guard0 = (Suspended, in_flight)"
  by code_simp

lemma guard0_idle: "getFullSymbol (symbol (btc 102)) \<notin> executingOrders guard0"
  by (simp add: guard0_def new_OrderExecutor_def)




text \<open>
  Claim C3. A call that passes the in-flight check either returns at once, with the
  in-flight set as it found it, or is suspended with its symbol added to the set; and
  when a suspended call returns, whatever the \<open>await\<close> gave (an accepted order with the
  ledger accepting or rejecting the trade, a rejected order, an exception) and whatever
  happened to the executor in between, its symbol is out of the set and no other symbol
  has been removed. So after \<open>executeBuy\<close> or \<open>executeSell\<close> has passed the check and
  returned, the symbol is not in the set.
\<close>

theorem mark_released:
  "(getFullSymbol (symbol (exec_token c)) \<notin> executingOrders ex \<longrightarrow>
      (exec_start c ex = (Returned res, ex1) \<longrightarrow>
         executingOrders ex1 = executingOrders ex) \<and>
      (exec_start c ex = (Suspended, ex1) \<longrightarrow>
         executingOrders ex1 =
           insert (getFullSymbol (symbol (exec_token c))) (executingOrders ex))) \<and>
   executingOrders (snd (exec_resume c a ex2)) =
     executingOrders ex2 - {getFullSymbol (symbol (exec_token c))} \<and>
   getFullSymbol (symbol t) \<notin> executingOrders (snd (executeBuy_resume t r a ex2)) \<and>
   getFullSymbol (symbol t) \<notin> executingOrders (snd (executeSell_resume t r a ex2)) \<and>
   (getFullSymbol (symbol t) \<notin> executingOrders ex \<longrightarrow>
      getFullSymbol (symbol t) \<notin> executingOrders (snd (executeBuy t r a ex)) \<and>
      getFullSymbol (symbol t) \<notin> executingOrders (snd (executeSell t r a ex)))"
proof -
  have start: "(exec_start c ex = (Returned res, ex1) \<longrightarrow>
         executingOrders ex1 = executingOrders ex) \<and>
      (exec_start c ex = (Suspended, ex1) \<longrightarrow>
         executingOrders ex1 =
           insert (getFullSymbol (symbol (exec_token c))) (executingOrders ex))"
    if "getFullSymbol (symbol (exec_token c)) \<notin> executingOrders ex"
    using exec_start_cases[OF that] by auto
  have resume: "executingOrders (snd (exec_resume c a ex2)) =
     executingOrders ex2 - {getFullSymbol (symbol (exec_token c))}"
    by (simp add: exec_resume_effect)
  have rb: "getFullSymbol (symbol t) \<notin> executingOrders (snd (executeBuy_resume t r a ex'))" for ex'
    by (simp add: executeBuy_resume_effect)
  have rs: "getFullSymbol (symbol t) \<notin> executingOrders (snd (executeSell_resume t r a ex'))" for ex'
    by (simp add: executeSell_resume_effect)
  have full: "getFullSymbol (symbol t) \<notin> executingOrders (snd (executeBuy t r a ex)) \<and>
      getFullSymbol (symbol t) \<notin> executingOrders (snd (executeSell t r a ex))"
    if idle: "getFullSymbol (symbol t) \<notin> executingOrders ex"
  proof
    show "getFullSymbol (symbol t) \<notin> executingOrders (snd (executeBuy t r a ex))"
      using executeBuy_start_cases[OF idle, of r] idle rb
      by (auto simp: executeBuy_def)
    show "getFullSymbol (symbol t) \<notin> executingOrders (snd (executeSell t r a ex))"
      using executeSell_start_cases[OF idle, of r] idle rs
      by (auto simp: executeSell_def)
  qed
  show ?thesis using start resume rb rs full by blast
qed

text \<open>
  The theorem on the example run: the buy at 102 marks \<open>BTCUSDT\<close>; the mark is gone when
  the call returns after an exception, after a rejection by the exchange and after a
  success.
\<close>

theorem mark_released_witness:
  "executingOrders in_flight = insert ''BTCUSDT'' (executingOrders guard0) \<and>
   executingOrders (snd (exec_resume (ExecuteBuy (btc 102) EmergencyClose) (Thrown ''timeout'') in_flight)) = {} \<and>
   ''BTCUSDT'' \<notin> executingOrders (snd (executeBuy (btc 102) EmergencyClose (Resolved (OrderFailed ''rejected'')) guard0)) \<and>
   ''BTCUSDT'' \<notin> executingOrders (snd (executeSell (btc 102) EmergencyClose (Resolved (OrderPlaced ''order-1'')) guard0))"
  using mark_released[of "ExecuteBuy (btc 102) EmergencyClose" guard0 "Failed BelowMinimum" in_flight
      "Thrown ''timeout''" in_flight "btc 102" EmergencyClose]
    mark_released[of "ExecuteBuy (btc 102) EmergencyClose" guard0 "Failed BelowMinimum" in_flight
      "Resolved (OrderFailed ''rejected'')" in_flight "btc 102" EmergencyClose]
    mark_released[of "ExecuteBuy (btc 102) EmergencyClose" guard0 "Failed BelowMinimum" in_flight
      "Resolved (OrderPlaced ''order-1'')" in_flight "btc 102" EmergencyClose]
    guard0_idle guard0_start
  by (simp add: in_flight_def guard0_def new_OrderExecutor_def btc_def getFullSymbol_def QUOTE_CURRENCY_def)

section \<open>The price tracker\<close>

text \<open>
  Claim C9, as amended. \<open>updatePrice\<close> for a symbol whose base token is not monitored
  leaves the monitored entries, and every field but the price map, as they were; it does
  record the price in the price map, so that \<open>getPrice\<close> of the symbol reads it back
  afterwards (0 for a price that is 0 or NaN), and \<open>getPrice\<close> of any other symbol is
  unchanged.
\<close>

theorem updatePrice_unmonitored:
  assumes "map_of (md_monitoredTokens md) (getBaseToken s) = None"
  shows "updatePrice s price now md = md\<lparr>prices := AList.update s price (prices md)\<rparr> \<and>
         md_monitoredTokens (updatePrice s price now md) = md_monitoredTokens md \<and>
         getPrice s (updatePrice s price now md) = js_or (Some price) (Num 0) \<and>
         (s' \<noteq> s \<longrightarrow> getPrice s' (updatePrice s price now md) = getPrice s' md)"
  using assms by (simp add: updatePrice_def getPrice_def map_of_update Let_def)

text \<open>The theorem on a tracker just constructed, for a symbol it does not monitor.\<close>

theorem updatePrice_unmonitored_witness:
  "md_monitoredTokens (updatePrice ''DOGEUSDT'' (Num 5) 7 new_MarketData) = [] \<and>
   getPrice ''DOGEUSDT'' (updatePrice ''DOGEUSDT'' (Num 5) 7 new_MarketData) = Num 5 \<and>
   getPrice ''BTCUSDT'' (updatePrice ''DOGEUSDT'' (Num 5) 7 new_MarketData) = Num 0"
  using updatePrice_unmonitored[of new_MarketData "''DOGEUSDT''" "Num 5" 7 "''BTCUSDT''"]
  by (simp add: new_MarketData_def getPrice_def)

text \<open>
  On that tracker the call is not a no-op: \<open>getPrice\<close> of the symbol reads 0 before it
  and 5 after it.
\<close>

theorem updatePrice_noop_counterexample:
  "map_of (md_monitoredTokens new_MarketData) (getBaseToken ''DOGEUSDT'') = None \<and>
   updatePrice ''DOGEUSDT'' (Num 5) 7 new_MarketData \<noteq> new_MarketData \<and>
   getPrice ''DOGEUSDT'' new_MarketData = Num 0 \<and>
   getPrice ''DOGEUSDT'' (updatePrice ''DOGEUSDT'' (Num 5) 7 new_MarketData) = Num 5"
  by (simp add: new_MarketData_def updatePrice_def getPrice_def Let_def)

section \<open>Symbol canonicalisation\<close>

lemma replace_first_Cons_no_prefix:
  "\<not> prefix pat (c # cs) \<Longrightarrow> replace_first pat rep (c # cs) = c # replace_first pat rep cs"
  by simp

lemma replace_first_at_prefix:
  "pat \<noteq> [] \<Longrightarrow> replace_first pat rep (pat @ b) = rep @ b"
  by (cases pat) simp_all

lemma prefix_of_long_front:
  assumes "prefix p (xs @ ys)" and "length p \<le> length xs"
  shows "prefix p xs"
proof -
  from assms(1) consider "prefix p xs" | us where "p = xs @ us" "prefix us ys"
    by (auto simp: prefix_append)
  then show ?thesis
  proof cases
    case 1
    then show ?thesis .
  next
    case 2
    with assms(2) have "us = []" by simp
    with 2 show ?thesis by simp
  qed
qed

text \<open>
  Where \<open>pat\<close> occurs in \<open>a @ pat @ b\<close> and nowhere further left, \<open>replace\<close> rewrites
  that occurrence.
\<close>

lemma replace_first_occ:
  "\<not> sublist pat (a @ butlast pat) \<Longrightarrow> pat \<noteq> [] \<Longrightarrow>
   replace_first pat rep (a @ pat @ b) = a @ rep @ b"
proof (induction a)
  case Nil
  then show ?case using replace_first_at_prefix[of pat rep b] by simp
next
  case (Cons c cs)
  have a: "\<not> sublist pat (cs @ butlast pat)"
    using Cons.prems by (auto simp: sublist_Cons_right)
  have b: "\<not> prefix pat (c # (cs @ pat @ b))"
  proof
    assume p: "prefix pat (c # (cs @ pat @ b))"
    have "pat @ b = butlast pat @ ([last pat] @ b)" using Cons.prems(2) by simp
    then have "c # (cs @ pat @ b) = (c # cs @ butlast pat) @ ([last pat] @ b)" by simp
    with p have "prefix pat ((c # cs @ butlast pat) @ ([last pat] @ b))" by simp
    moreover have "length pat \<le> length (c # cs @ butlast pat)" by simp
    ultimately have "prefix pat (c # cs @ butlast pat)"
      by (rule prefix_of_long_front)
    then have "sublist pat ((c # cs) @ butlast pat)" using prefix_imp_sublist by force
    then show False using Cons.prems(1) by simp
  qed
  have "replace_first pat rep ((c # cs) @ pat @ b) = c # replace_first pat rep (cs @ pat @ b)"
    using replace_first_Cons_no_prefix[OF b] by simp
  also have "\<dots> = c # (cs @ rep @ b)" using Cons.IH[OF a Cons.prems(2)] by simp
  finally show ?case by simp
qed

text \<open>\<open>USDT\<close> has no border: none of its proper prefixes is one of its suffixes.\<close>

lemma usdt_first_at_end:
  assumes "\<not> sublist ''USDT'' t"
  shows "\<not> sublist ''USDT'' (t @ ''USD'')"
proof
  assume "sublist ''USDT'' (t @ ''USD'')"
  then obtain ps ss where e: "t @ ''USD'' = ps @ ''USDT'' @ ss"
    by (auto simp: sublist_def)
  show False
  proof (cases ss rule: rev_cases)
    case Nil
    with e show False by simp
  next
    case (snoc ss1 z)
    note s1 = snoc
    show False
    proof (cases ss1 rule: rev_cases)
      case Nil
      with e s1 show False by simp
    next
      case (snoc ss2 y)
      note s2 = snoc
      show False
      proof (cases ss2 rule: rev_cases)
        case Nil
        with e s1 s2 show False by simp
      next
        case (snoc ss3 x)
        with e s1 s2 have "t = ps @ ''USDT'' @ ss3" by simp
        with assms show False by (auto simp: sublist_def)
      qed
    qed
  qed
qed

lemma sublist_eval:
  "sublist (x # xs) (y # ys) = (prefix (x # xs) (y # ys) \<or> sublist (x # xs) ys)"
  by (simp add: sublist_Cons_right)

text \<open>
  Claim C10, as amended. For every base token \<open>t\<close> in which the quote currency \<open>USDT\<close>
  does not occur, \<open>getBaseToken (getFullSymbol t) = t\<close>. \<open>getBaseToken\<close> removes the
  first occurrence of \<open>USDT\<close> only: for a base token \<open>a @ USDT @ b\<close> whose first
  occurrence of \<open>USDT\<close> is the one shown, the round trip gives \<open>a @ b @ USDT\<close>, and
  that is the token again exactly when \<open>b @ USDT = USDT @ b\<close>.
\<close>

theorem symbol_roundtrip:
  "(\<not> sublist QUOTE_CURRENCY t \<longrightarrow> getBaseToken (getFullSymbol t) = t) \<and>
   (\<not> sublist QUOTE_CURRENCY (a @ butlast QUOTE_CURRENCY) \<longrightarrow>
      getBaseToken (getFullSymbol (a @ QUOTE_CURRENCY @ b)) = a @ b @ QUOTE_CURRENCY \<and>
      (getBaseToken (getFullSymbol (a @ QUOTE_CURRENCY @ b)) = a @ QUOTE_CURRENCY @ b
         \<longleftrightarrow> b @ QUOTE_CURRENCY = QUOTE_CURRENCY @ b))"
proof (intro conjI impI)
  assume "\<not> sublist QUOTE_CURRENCY t"
  then have "\<not> sublist ''USDT'' (t @ butlast ''USDT'')"
    using usdt_first_at_end[of t] by (simp add: QUOTE_CURRENCY_def)
  then have "replace_first ''USDT'' [] (t @ ''USDT'' @ []) = t @ [] @ []"
    by (rule replace_first_occ) simp
  then show "getBaseToken (getFullSymbol t) = t"
    by (simp add: getBaseToken_def getFullSymbol_def QUOTE_CURRENCY_def)
next
  assume "\<not> sublist QUOTE_CURRENCY (a @ butlast QUOTE_CURRENCY)"
  then have "\<not> sublist ''USDT'' (a @ butlast ''USDT'')" by (simp add: QUOTE_CURRENCY_def)
  then have "replace_first ''USDT'' [] (a @ ''USDT'' @ (b @ ''USDT'')) = a @ [] @ (b @ ''USDT'')"
    by (rule replace_first_occ) simp
  then show r: "getBaseToken (getFullSymbol (a @ QUOTE_CURRENCY @ b)) = a @ b @ QUOTE_CURRENCY"
    by (simp add: getBaseToken_def getFullSymbol_def QUOTE_CURRENCY_def)
  show "getBaseToken (getFullSymbol (a @ QUOTE_CURRENCY @ b)) = a @ QUOTE_CURRENCY @ b
         \<longleftrightarrow> b @ QUOTE_CURRENCY = QUOTE_CURRENCY @ b"
    unfolding r by auto
qed

text \<open>The theorem at \<open>BTC\<close>, and at \<open>USDTX\<close>, which the round trip turns into \<open>XUSDT\<close>.\<close>

theorem symbol_roundtrip_witness:
  "getBaseToken (getFullSymbol ''BTC'') = ''BTC'' \<and>
   getBaseToken (getFullSymbol ''USDTX'') = ''XUSDT'' \<and>
   getBaseToken (getFullSymbol ''USDTX'') \<noteq> ''USDTX''"
  using symbol_roundtrip[of "''BTC''" "[]" "''X''"]
  by (simp add: QUOTE_CURRENCY_def sublist_eval)

text \<open>
  The base token \<open>USDT\<close> contains \<open>USDT\<close>, and the round trip restores it: its full
  symbol is \<open>USDTUSDT\<close>, of which the first \<open>USDT\<close> is removed.
\<close>

theorem symbol_roundtrip_counterexample:
  "sublist ''USDT'' ''USDT'' \<and> getBaseToken (getFullSymbol ''USDT'') = ''USDT''"
  by (simp add: getBaseToken_def getFullSymbol_def QUOTE_CURRENCY_def)

end
